theory Spec2Isabelle
  imports Complex_Main "HOL-Library.Sublist"
begin

section \<open>Block states and directions\<close>

text \<open>
  A \<open>BlockState\<close> (renderer.ts) carries a block name and a string-to-string property
  table. A property read \<open>blockProperties[k]\<close> of a missing key is \<open>undefined\<close> in the
  source; here it is \<open>None\<close>. JavaScript numbers are modelled as reals; the
  rounding of doubles is not modelled. The statements below evaluate arithmetic only on
  small integers, where the doubles of the source are exact, or do not evaluate it at all.
\<close>

record BlockState =
  blockName :: string
  blockProperties :: "string \<rightharpoonup> string"

datatype Direction = DOWN | UP | NORTH | SOUTH | WEST | EAST

text \<open>
  Modelled from the spec: the enum \<open>Direction\<close> of math.ts is not among the
  sources. hardcodes.ts indexes \<open>blockProperties\<close> with a direction, so each member is
  the lower-case property key of its side (spec section 8 pairs \<open>NORTH\<close> with the
  property \<open>north\<close>).
\<close>

fun directionName :: "Direction \<Rightarrow> string" where
  "directionName DOWN = ''down''"
| "directionName UP = ''up''"
| "directionName NORTH = ''north''"
| "directionName SOUTH = ''south''"
| "directionName WEST = ''west''"
| "directionName EAST = ''east''"

text \<open>
  Modelled from the spec: \<open>isHorizontalDirection\<close>, \<open>isVerticalDirection\<close> and
  \<open>oppositeDirection\<close> of math.ts are not among the sources; spec section 3 gives
  \<open>Direction\<close> an \<open>opposite\<close> and a horizontal/vertical classification of the six
  axis-aligned directions.
\<close>

fun isHorizontalDirection :: "Direction \<Rightarrow> bool" where
  "isHorizontalDirection DOWN = False"
| "isHorizontalDirection UP = False"
| "isHorizontalDirection NORTH = True"
| "isHorizontalDirection SOUTH = True"
| "isHorizontalDirection WEST = True"
| "isHorizontalDirection EAST = True"

fun isVerticalDirection :: "Direction \<Rightarrow> bool" where
  "isVerticalDirection DOWN = True"
| "isVerticalDirection UP = True"
| "isVerticalDirection NORTH = False"
| "isVerticalDirection SOUTH = False"
| "isVerticalDirection WEST = False"
| "isVerticalDirection EAST = False"

fun oppositeDirection :: "Direction \<Rightarrow> Direction" where
  "oppositeDirection DOWN = UP"
| "oppositeDirection UP = DOWN"
| "oppositeDirection NORTH = SOUTH"
| "oppositeDirection SOUTH = NORTH"
| "oppositeDirection WEST = EAST"
| "oppositeDirection EAST = WEST"

section \<open>Name sets: \<open>checkNameInSet\<close>\<close>

text \<open>
  A name set mixes string literals and regular expressions. Every regular expression of
  hardcodes.ts has the shape \<open>/.*lit$/\<close>, so \<open>RegExp lit\<close> stands for that literal.
  \<open>RegExp.prototype.test\<close> searches from every start position; at a start position
  \<open>.*\<close> consumes any run of characters that are not line terminators, then \<open>lit\<close>
  must fill the rest of the input up to its end (\<open>$\<close> without the multiline flag).
\<close>

datatype NameTest = Str string | RegExp string

definition isLineTerminator :: "char \<Rightarrow> bool" where
  "isLineTerminator c = (c = CHR 0x0A \<or> c = CHR 0x0D)"

fun matchHere :: "string \<Rightarrow> string \<Rightarrow> bool" where
  "matchHere lit [] = (lit = [])"
| "matchHere lit (c # cs) = (lit = c # cs \<or> (\<not> isLineTerminator c \<and> matchHere lit cs))"

fun regExpTest :: "string \<Rightarrow> string \<Rightarrow> bool" where
  "regExpTest lit [] = matchHere lit []"
| "regExpTest lit (c # cs) = (matchHere lit (c # cs) \<or> regExpTest lit cs)"

fun nameTestMatches :: "string \<Rightarrow> NameTest \<Rightarrow> bool" where
  "nameTestMatches name (RegExp lit) = regExpTest lit name"
| "nameTestMatches name (Str s) = (s = name)"

definition checkNameInSet :: "string \<Rightarrow> NameTest list \<Rightarrow> bool" where
  "checkNameInSet name nameSet = list_ex (nameTestMatches name) nameSet"

definition halfTransparentBlocks :: "NameTest list" where
  "halfTransparentBlocks =
     [Str ''frosted_ice'', Str ''ice'', Str ''honey_block'', Str ''slime_block'',
      RegExp ''copper_grate'', Str ''glass'', RegExp ''stained_glass'',
      Str ''tinted_glass'']"

definition leavesBlocks :: NameTest where
  "leavesBlocks = RegExp ''_leaves''"

section \<open>Face culling: \<open>hardCodedSkipRendering\<close>\<close>

definition hardCodedSkipRendering :: "BlockState \<Rightarrow> BlockState \<Rightarrow> Direction \<Rightarrow> bool" where
  "hardCodedSkipRendering thisBlock otherBlock direction =
     (if blockName thisBlock = ''powder_snow'' \<and> blockName otherBlock = ''powder_snow''
      then True
      else if blockName thisBlock = ''iron_bars'' \<and>
              blockName otherBlock = ''iron_bars'' \<and>
              isHorizontalDirection direction \<and>
              blockProperties thisBlock (directionName direction) = Some ''true'' \<and>
              blockProperties otherBlock (directionName (oppositeDirection direction))
                = Some ''true''
      then True
      else if blockName thisBlock = ''mangrove_roots'' \<and>
              blockName otherBlock = ''mangrove_roots'' \<and>
              isVerticalDirection direction
      then True
      else checkNameInSet (blockName thisBlock) halfTransparentBlocks \<and>
           blockName thisBlock = blockName otherBlock)"

section \<open>Shading: \<open>getShade\<close>\<close>

definition constantAmbientLight :: bool where
  "constantAmbientLight = False"

definition getShade :: "Direction \<Rightarrow> bool \<Rightarrow> real" where
  "getShade direction shade =
     (if \<not> shade then (if constantAmbientLight then 0.9 else 1)
      else case direction of
             DOWN \<Rightarrow> (if constantAmbientLight then 0.9 else 0.5)
           | UP \<Rightarrow> (if constantAmbientLight then 0.9 else 1)
           | NORTH \<Rightarrow> 0.8
           | SOUTH \<Rightarrow> 0.8
           | WEST \<Rightarrow> 0.6
           | EAST \<Rightarrow> 0.6)"

section \<open>The cuboid builder: \<open>boxModel\<close>\<close>

text \<open>
  A texture slot is a number taken from the model manager's list for the block; reading
  past the end of that list gives \<open>undefined\<close>, here \<open>None\<close>. A face carries its
  texture, its UV rectangle \<open>[u0, v0, u1, v1]\<close> and an optional rotation.
\<close>

record ModelFace =
  face_texture :: "nat option"
  face_uv :: "real list"
  face_rotation :: "nat option"

record ModelElement =
  element_from :: "real list"
  element_to :: "real list"
  element_shade :: bool
  element_faces :: "Direction \<rightharpoonup> ModelFace"

record BlockModel =
  elements :: "ModelElement list"

datatype Rotation = Rotation (rotationX: real) (rotationY: real)

text \<open>
  Modelled from the spec: \<open>IDENTITY_ROTATION\<close> of math.ts is not among the sources;
  spec section 4.4 names it the identity of the \<open>(x-degrees, y-degrees)\<close> pairs.
\<close>

definition IDENTITY_ROTATION :: Rotation where
  "IDENTITY_ROTATION = Rotation 0 0"

text \<open>
  Modelled from the spec: \<open>bakeModel\<close> of model.ts is not among the sources. By spec
  sections 3 and 4.4 a \<open>BakedModel\<close> is the cuboid elements it was built from, each
  with its \<open>from\<close>, \<open>to\<close>, \<open>shade\<close> and face map, with the rotation recorded on
  the model for the caller to apply. The material picker handed to \<open>bakeModel\<close> is an
  opaque external handle and is left out.
\<close>

record BakedModel =
  bakedElements :: "ModelElement list"
  bakedRotation :: Rotation
  bakedUvLock :: bool

definition bakeModel :: "BlockModel \<Rightarrow> Rotation \<Rightarrow> bool \<Rightarrow> BakedModel" where
  "bakeModel model rotation uvLock =
     \<lparr>bakedElements = elements model, bakedRotation = rotation, bakedUvLock = uvLock\<rparr>"

text \<open>The default of the parameter \<open>visibleFaces\<close>.\<close>

definition defaultVisibleFaces :: "Direction list" where
  "defaultVisibleFaces = [DOWN, UP, WEST, NORTH, EAST, SOUTH]"

text \<open>
  The local \<open>directionFaces\<close> of \<open>boxModel\<close>: an empty object filled by one guarded
  assignment per direction, in the mirrored or in the plain layout.
\<close>

definition directionFaces ::
  "nat option \<Rightarrow> real \<times> real \<times> real \<Rightarrow> real \<times> real \<Rightarrow> Direction list \<Rightarrow> bool \<Rightarrow>
     (Direction \<rightharpoonup> ModelFace)" where
  "directionFaces texture dims texOff visibleFaces mirror =
     (case dims of (width, height, depth) \<Rightarrow>
      case texOff of (texOffX, texOffY) \<Rightarrow>
      if mirror then
        (let f0 = Map.empty;
             f1 = (if DOWN \<in> set visibleFaces
                   then f0(DOWN \<mapsto> \<lparr>face_texture = texture,
                          face_uv = [texOffX + depth + width, texOffY,
                                     texOffX + depth, texOffY + depth],
                          face_rotation = None\<rparr>)
                   else f0);
             f2 = (if UP \<in> set visibleFaces
                   then f1(UP \<mapsto> \<lparr>face_texture = texture,
                          face_uv = [texOffX + depth + width, texOffY,
                                     texOffX + depth + width + width, texOffY + depth],
                          face_rotation = Some 180\<rparr>)
                   else f1);
             f3 = (if WEST \<in> set visibleFaces
                   then f2(WEST \<mapsto> \<lparr>face_texture = texture,
                          face_uv = [texOffX + depth, texOffY + depth + height,
                                     texOffX, texOffY + depth],
                          face_rotation = None\<rparr>)
                   else f2);
             f4 = (if NORTH \<in> set visibleFaces
                   then f3(NORTH \<mapsto> \<lparr>face_texture = texture,
                          face_uv = [texOffX + depth, texOffY + depth + height,
                                     texOffX + depth + width, texOffY + depth],
                          face_rotation = None\<rparr>)
                   else f3);
             f5 = (if EAST \<in> set visibleFaces
                   then f4(EAST \<mapsto> \<lparr>face_texture = texture,
                          face_uv = [texOffX + depth + width + depth,
                                     texOffY + depth + height,
                                     texOffX + depth + width, texOffY + depth],
                          face_rotation = None\<rparr>)
                   else f4);
             f6 = (if SOUTH \<in> set visibleFaces
                   then f5(SOUTH \<mapsto> \<lparr>face_texture = texture,
                          face_uv = [texOffX + depth + width + depth,
                                     texOffY + depth + height,
                                     texOffX + depth + width + depth + width,
                                     texOffY + depth],
                          face_rotation = None\<rparr>)
                   else f5)
         in f6)
      else
        (let f0 = Map.empty;
             f1 = (if DOWN \<in> set visibleFaces
                   then f0(DOWN \<mapsto> \<lparr>face_texture = texture,
                          face_uv = [texOffX + depth, texOffY,
                                     texOffX + depth + width, texOffY + depth],
                          face_rotation = None\<rparr>)
                   else f0);
             f2 = (if UP \<in> set visibleFaces
                   then f1(UP \<mapsto> \<lparr>face_texture = texture,
                          face_uv = [texOffX + depth + width + width, texOffY,
                                     texOffX + depth + width, texOffY + depth],
                          face_rotation = Some 180\<rparr>)
                   else f1);
             f3 = (if WEST \<in> set visibleFaces
                   then f2(WEST \<mapsto> \<lparr>face_texture = texture,
                          face_uv = [texOffX + depth, texOffY + depth + height,
                                     texOffX, texOffY + depth],
                          face_rotation = None\<rparr>)
                   else f2);
             f4 = (if NORTH \<in> set visibleFaces
                   then f3(NORTH \<mapsto> \<lparr>face_texture = texture,
                          face_uv = [texOffX + depth + width, texOffY + depth + height,
                                     texOffX + depth, texOffY + depth],
                          face_rotation = None\<rparr>)
                   else f3);
             f5 = (if EAST \<in> set visibleFaces
                   then f4(EAST \<mapsto> \<lparr>face_texture = texture,
                          face_uv = [texOffX + depth + width + depth,
                                     texOffY + depth + height,
                                     texOffX + depth + width, texOffY + depth],
                          face_rotation = None\<rparr>)
                   else f4);
             f6 = (if SOUTH \<in> set visibleFaces
                   then f5(SOUTH \<mapsto> \<lparr>face_texture = texture,
                          face_uv = [texOffX + depth + width + depth + width,
                                     texOffY + depth + height,
                                     texOffX + depth + width + depth,
                                     texOffY + depth],
                          face_rotation = None\<rparr>)
                   else f5)
         in f6))"

definition boxModel ::
  "nat option \<Rightarrow> real \<times> real \<times> real \<Rightarrow> real \<times> real \<times> real \<Rightarrow> real \<times> real \<Rightarrow>
     real \<times> real \<times> real \<Rightarrow> Rotation \<Rightarrow> Direction list \<Rightarrow> bool \<Rightarrow> bool \<Rightarrow> BakedModel" where
  "boxModel texture fromPos dims texOff poseOff rotation visibleFaces mirror shade =
     (case fromPos of (fromX, fromY, fromZ) \<Rightarrow>
      case dims of (width, height, depth) \<Rightarrow>
      case poseOff of (poseOffX, poseOffY, poseOffZ) \<Rightarrow>
      bakeModel
        \<lparr>elements =
           [\<lparr>element_from = [fromX + poseOffX, fromY + poseOffY, fromZ + poseOffZ],
             element_to = [fromX + width + poseOffX, fromY + height + poseOffY,
                           fromZ + depth + poseOffZ],
             element_shade = shade,
             element_faces = directionFaces texture dims texOff visibleFaces mirror\<rparr>]\<rparr>
        rotation False)"

text \<open>
  The two call shapes the renderers use: all five trailing parameters defaulted, and
  pose offset and rotation given with the last three defaulted.
\<close>

definition boxModel5 ::
  "nat option \<Rightarrow> real \<times> real \<times> real \<Rightarrow> real \<times> real \<times> real \<Rightarrow> real \<times> real \<Rightarrow> BakedModel" where
  "boxModel5 texture fromPos dims texOff =
     boxModel texture fromPos dims texOff (0, 0, 0) IDENTITY_ROTATION
       defaultVisibleFaces False True"

definition boxModel7 ::
  "nat option \<Rightarrow> real \<times> real \<times> real \<Rightarrow> real \<times> real \<times> real \<Rightarrow> real \<times> real \<Rightarrow>
     real \<times> real \<times> real \<Rightarrow> Rotation \<Rightarrow> BakedModel" where
  "boxModel7 texture fromPos dims texOff poseOff rotation =
     boxModel texture fromPos dims texOff poseOff rotation defaultVisibleFaces False True"

definition fromFacingToRotation :: "string option \<Rightarrow> Rotation" where
  "fromFacingToRotation facing =
     (if facing = Some ''south'' then Rotation 0 0
      else if facing = Some ''west'' then Rotation 0 90
      else if facing = Some ''north'' then Rotation 0 180
      else if facing = Some ''east'' then Rotation 0 270
      else Rotation 0 0)"

section \<open>The scene and the console\<close>

text \<open>
  The transforms are values of the external library three.js; they are kept as the
  expressions the renderers build: \<open>new THREE.Matrix4()\<close> is \<open>Identity\<close>,
  \<open>a.multiply(b)\<close> is \<open>Multiply a b\<close>, and the \<open>make...\<close> methods give the named
  matrices.
\<close>

datatype Matrix4 =
    Identity
  | Translation real real real
  | RotationX real
  | RotationY real
  | RotationZ real
  | Multiply Matrix4 Matrix4

text \<open>
  A material argument is the function choosing, for an animated or a static sprite, the
  picker's material of one render pass.
\<close>

datatype RenderPass = Solid | Cutout | Translucent

record RenderCall =
  call_model :: BakedModel
  call_block :: BlockState
  call_material :: RenderPass
  call_transform :: Matrix4
  call_flag :: "bool option"

text \<open>
  The effects of a renderer: what it hands to the scene, in order, and what it writes
  with \<open>console.warn\<close> (the message and the value printed after it).
\<close>

record RenderState =
  scene :: "RenderCall list"
  console :: "(string \<times> string option) list"

text \<open>
  Modelled from the spec: \<open>renderModelNoCullsWithMS\<close> of model.ts is not among the
  sources. By spec section 6 the scene sink accepts one emitted mesh fragment per call: a
  baked cuboid, a material-selection function and a world transform. The optional sixth
  argument is recorded as passed.
\<close>

definition renderModelNoCullsWithMS ::
  "BakedModel \<Rightarrow> BlockState \<Rightarrow> RenderPass \<Rightarrow> RenderState \<Rightarrow> Matrix4 \<Rightarrow> bool option \<Rightarrow>
     RenderState" where
  "renderModelNoCullsWithMS model block material st transform flag =
     st\<lparr>scene := scene st @
        [\<lparr>call_model = model, call_block = block, call_material = material,
          call_transform = transform, call_flag = flag\<rparr>]\<rparr>"

definition consoleWarn :: "string \<Rightarrow> string option \<Rightarrow> RenderState \<Rightarrow> RenderState" where
  "consoleWarn msg v st = st\<lparr>console := console st @ [(msg, v)]\<rparr>"

text \<open>Reading an array element: \<open>undefined\<close> beyond the end.\<close>

definition arrayGet :: "'a list \<Rightarrow> nat \<Rightarrow> 'a option" where
  "arrayGet xs i = (if i < length xs then Some (xs ! i) else None)"

section \<open>The chest renderer\<close>

text \<open>
  The model manager is external; \<open>modelManager name\<close> is the list returned by
  \<open>getSpecialBlocksData(name)\<close>. The three models of a chest are chosen by the
  property \<open>type\<close>; \<open>None\<close> is the branch that warns and returns.
\<close>

definition chestModels ::
  "BlockState \<Rightarrow> (string \<Rightarrow> nat list) \<Rightarrow> (BakedModel \<times> BakedModel \<times> BakedModel) option" where
  "chestModels blockState modelManager =
     (let specials = modelManager (blockName blockState);
          normalTexture = arrayGet specials 0;
          leftTexture = arrayGet specials 1;
          rightTexture = arrayGet specials 2;
          facing = blockProperties blockState ''facing'';
          rotation = fromFacingToRotation facing
      in if blockProperties blockState ''type'' = Some ''single'' then
           Some (boxModel7 normalTexture (1, 0, 1) (14, 10, 14) (0, 19) (0, 0, 0) rotation,
                 boxModel7 normalTexture (1, 0, 0) (14, 5, 14) (0, 0) (0, 9, 1) rotation,
                 boxModel7 normalTexture (7, -2, 14) (2, 4, 1) (0, 0) (0, 9, 1) rotation)
         else if blockProperties blockState ''type'' = Some ''left'' then
           Some (boxModel7 leftTexture (0, 0, 1) (15, 10, 14) (0, 19) (0, 0, 0) rotation,
                 boxModel7 leftTexture (0, 0, 0) (15, 5, 14) (0, 0) (0, 9, 1) rotation,
                 boxModel7 leftTexture (0, -2, 14) (1, 4, 1) (0, 0) (0, 9, 1) rotation)
         else if blockProperties blockState ''type'' = Some ''right'' then
           Some (boxModel7 rightTexture (1, 0, 1) (15, 10, 14) (0, 19) (0, 0, 0) rotation,
                 boxModel7 rightTexture (1, 0, 0) (15, 5, 14) (0, 0) (0, 9, 1) rotation,
                 boxModel7 rightTexture (15, -2, 14) (1, 4, 1) (0, 0) (0, 9, 1) rotation)
         else None)"

definition renderChest ::
  "RenderState \<Rightarrow> real \<Rightarrow> real \<Rightarrow> real \<Rightarrow> BlockState \<Rightarrow> (string \<Rightarrow> nat list) \<Rightarrow> RenderState" where
  "renderChest st x y z blockState modelManager =
     (case chestModels blockState modelManager of
        None \<Rightarrow> consoleWarn ''Unknown chest type'' (blockProperties blockState ''type'') st
      | Some (modelBottom, modelLid, modelLock) \<Rightarrow>
          (let transform = Translation x y z;
               material = Cutout;
               st1 = renderModelNoCullsWithMS modelBottom blockState material st transform None;
               st2 = renderModelNoCullsWithMS modelLid blockState material st1 transform None;
               st3 = renderModelNoCullsWithMS modelLock blockState material st2 transform None
           in st3))"

section \<open>The book and the lectern renderer\<close>

definition renderBook ::
  "RenderState \<Rightarrow> Matrix4 \<Rightarrow> BlockState \<Rightarrow> nat option \<Rightarrow> real \<times> real \<times> real \<times> real \<Rightarrow>
     RenderState" where
  "renderBook st transform block texture params =
     (case params of (rotAngle, openScale, flipPage1Percent, flipPage2Percent) \<Rightarrow>
      let modelLeftLid = boxModel5 texture (-6, -5, -0.005) (6, 10, 0.005) (0, 0);
          modelRightLid = boxModel5 texture (0, -5, -0.005) (6, 10, 0.005) (16, 0);
          modelSeam = boxModel5 texture (-1, -5, 0) (2, 10, 0.005) (12, 0);
          modelLeftPages = boxModel5 texture (0, -4, -0.99) (5, 8, 1) (0, 10);
          modelRightPages = boxModel5 texture (0, -4, -0.01) (5, 8, 1) (12, 10);
          modelFlipPage = boxModel5 texture (0, -4, 0) (5, 8, 0.005) (24, 10);
          rot = (sin (rotAngle * 0.02) * 0.1 + 1.25) * openScale;
          leftLidMatrix =
            Multiply (Multiply Identity (Translation 0 0 (- 1 / 16))) (RotationY (pi + rot));
          rightLidMatrix =
            Multiply (Multiply Identity (Translation 0 0 (1 / 16))) (RotationY (- rot));
          leftPagesMatrix =
            Multiply (Multiply Identity (Translation (sin rot / 16) 0 0)) (RotationY rot);
          rightPagesMatrix =
            Multiply (Multiply Identity (Translation (sin rot / 16) 0 0)) (RotationY (- rot));
          flipPage1Matrix =
            Multiply (Multiply Identity (Translation (sin rot / 16) 0 0))
              (RotationY (rot - rot * 2 * flipPage1Percent));
          flipPage2Matrix =
            Multiply (Multiply Identity (Translation (sin rot / 16) 0 0))
              (RotationY (rot - rot * 2 * flipPage2Percent));
          seamMatrix = RotationY (pi / 2);
          material = Solid;
          st1 = renderModelNoCullsWithMS modelLeftLid block material st
                  (Multiply transform leftLidMatrix) (Some True);
          st2 = renderModelNoCullsWithMS modelRightLid block material st1
                  (Multiply transform rightLidMatrix) (Some True);
          st3 = renderModelNoCullsWithMS modelSeam block material st2
                  (Multiply transform seamMatrix) (Some True);
          st4 = renderModelNoCullsWithMS modelLeftPages block material st3
                  (Multiply transform leftPagesMatrix) (Some True);
          st5 = renderModelNoCullsWithMS modelRightPages block material st4
                  (Multiply transform rightPagesMatrix) (Some True);
          st6 = renderModelNoCullsWithMS modelFlipPage block material st5
                  (Multiply transform flipPage1Matrix) (Some True);
          st7 = renderModelNoCullsWithMS modelFlipPage block material st6
                  (Multiply transform flipPage2Matrix) (Some True)
      in st7)"

definition renderLecternBlock ::
  "RenderState \<Rightarrow> real \<Rightarrow> real \<Rightarrow> real \<Rightarrow> BlockState \<Rightarrow> (string \<Rightarrow> nat list) \<Rightarrow> RenderState" where
  "renderLecternBlock st x y z blockState modelManager =
     (if blockProperties blockState ''has_book'' = Some ''false'' then st
      else
        (let texture = arrayGet (modelManager (blockName blockState)) 0;
             rotation = fromFacingToRotation (blockProperties blockState ''facing'');
             transform =
               Multiply
                 (Multiply
                   (Multiply
                     (Multiply
                       (Multiply Identity (Translation x y z))
                       (Translation 0.5 1.0625 0.5))
                     (RotationY ((- (rotationY rotation + 90) / 180) * pi)))
                   (RotationZ (pi * 0.375)))
                 (Translation 0 (- 0.125) 0)
         in renderBook st transform blockState texture (0, 1.2, 0.1, 0.9)))"

section \<open>The registry of special renderers\<close>

text \<open>
  An entry of \<open>hardCodedRenderers\<close> refers to a render function: one of the function
  declarations of hardcodes.ts, or the arrow function \<open>() => {}\<close> (\<open>NoOpFn\<close>).
  \<open>needRenderModel\<close> is an optional field: \<open>None\<close> where the entry leaves it out.
\<close>

datatype RenderFunc =
    NoOpFn
  | RenderChestFn
  | RenderShulkerBoxFn
  | RenderLecternBlockFn
  | RenderEnchantTableFn
  | RenderBellFn
  | RenderDecoratedPotFn
  | RenderBedFn
  | RenderBannerFn
  | RenderSkullFn
  | RenderHangingSignFn
  | RenderSignFn

record RendererEntry =
  block :: NameTest
  renderFunc :: RenderFunc
  needRenderModel :: "bool option"

definition hardCodedRenderers :: "RendererEntry list" where
  "hardCodedRenderers =
     [\<lparr>block = Str ''water'', renderFunc = NoOpFn, needRenderModel = None\<rparr>,
      \<lparr>block = Str ''lava'', renderFunc = NoOpFn, needRenderModel = None\<rparr>,
      \<lparr>block = Str ''chest'', renderFunc = RenderChestFn, needRenderModel = None\<rparr>,
      \<lparr>block = Str ''ender_chest'', renderFunc = RenderChestFn, needRenderModel = None\<rparr>,
      \<lparr>block = Str ''trapped_chest'', renderFunc = RenderChestFn, needRenderModel = None\<rparr>,
      \<lparr>block = RegExp ''shulker_box'', renderFunc = RenderShulkerBoxFn,
        needRenderModel = None\<rparr>,
      \<lparr>block = Str ''lectern'', renderFunc = RenderLecternBlockFn,
        needRenderModel = Some True\<rparr>,
      \<lparr>block = Str ''enchanting_table'', renderFunc = RenderEnchantTableFn,
        needRenderModel = Some True\<rparr>,
      \<lparr>block = Str ''bell'', renderFunc = RenderBellFn, needRenderModel = Some True\<rparr>,
      \<lparr>block = Str ''decorated_pot'', renderFunc = RenderDecoratedPotFn,
        needRenderModel = None\<rparr>,
      \<lparr>block = RegExp ''_bed'', renderFunc = RenderBedFn, needRenderModel = None\<rparr>,
      \<lparr>block = RegExp ''_banner'', renderFunc = RenderBannerFn, needRenderModel = None\<rparr>,
      \<lparr>block = Str ''piston_head'', renderFunc = NoOpFn, needRenderModel = Some True\<rparr>,
      \<lparr>block = RegExp ''_skull'', renderFunc = RenderSkullFn, needRenderModel = None\<rparr>,
      \<lparr>block = RegExp ''_head'', renderFunc = RenderSkullFn, needRenderModel = None\<rparr>,
      \<lparr>block = RegExp ''_hanging_sign'', renderFunc = RenderHangingSignFn,
        needRenderModel = None\<rparr>,
      \<lparr>block = RegExp ''_sign'', renderFunc = RenderSignFn, needRenderModel = None\<rparr>]"

text \<open>
  Calling an entry's render function. The arrow function has an empty body; the chest
  and lectern renderers are the definitions above; the bodies of the remaining render
  functions are not needed here and are taken as the parameter \<open>others\<close>.
\<close>

type_synonym Renderer =
  "RenderState \<Rightarrow> real \<Rightarrow> real \<Rightarrow> real \<Rightarrow> BlockState \<Rightarrow> (string \<Rightarrow> nat list) \<Rightarrow> RenderState"

fun callRenderFunc :: "(RenderFunc \<Rightarrow> Renderer) \<Rightarrow> RenderFunc \<Rightarrow> Renderer" where
  "callRenderFunc others NoOpFn = (\<lambda>st x y z blockState modelManager. st)"
| "callRenderFunc others RenderChestFn = renderChest"
| "callRenderFunc others RenderLecternBlockFn = renderLecternBlock"
| "callRenderFunc others f = others f"

text \<open>
  Modelled from the spec: the lookup that walks \<open>hardCodedRenderers\<close> is in
  renderer.ts, which is not among the sources. By spec section 4.5 the block name is
  matched against the ordered list of exact-string or pattern keys and the first match
  wins; a name that matches no entry has no special renderer.
\<close>

definition findHardCodedRenderer :: "string \<Rightarrow> RendererEntry option" where
  "findHardCodedRenderer name =
     List.find (\<lambda>entry. nameTestMatches name (block entry)) hardCodedRenderers"

text \<open>
  Modelled from the spec: the reader of \<open>needRenderModel\<close> is in renderer.ts, which
  is not among the sources. By spec section 4.5 an entry that sets the flag requests that
  the generic model of the block be rendered as well; without it only the entry's render
  function draws the block.
\<close>

definition rendersGenericModel :: "RendererEntry \<Rightarrow> bool" where
  "rendersGenericModel entry = (needRenderModel entry = Some True)"

section \<open>The banner renderer: flag colour\<close>

text \<open>
  The own properties of the object literal \<open>dyeColorMapping\<close>. Names it inherits
  from \<open>Object.prototype\<close> (\<open>constructor\<close>, \<open>toString\<close> and the like) are not
  modelled; none of them is a colour word of a banner name.
\<close>

definition dyeColorMapping :: "string \<rightharpoonup> nat" where
  "dyeColorMapping =
     map_of
       [(''white'', 0xf9fffe),
        (''orange'', 0xf9801d),
        (''magenta'', 0xc74ebd),
        (''light_blue'', 0x3ab3da),
        (''yellow'', 0xfed83d),
        (''lime'', 0x80c71f),
        (''pink'', 0xf38baa),
        (''gray'', 0x474f52),
        (''light_gray'', 0x9d9d97),
        (''cyan'', 0x169c9c),
        (''purple'', 0x8932b8),
        (''blue'', 0x3c44aa),
        (''brown'', 0x835432),
        (''green'', 0x5e7c16),
        (''red'', 0xb02e26),
        (''black'', 0x1d1d21)]"

text \<open>
  \<open>String.prototype.indexOf\<close> for a one-character needle: the first index, or \<open>-1\<close>.
  \<open>String.prototype.substring\<close>: both ends are clamped to the string and swapped when
  out of order.
\<close>

fun indexOfFrom :: "char \<Rightarrow> string \<Rightarrow> int \<Rightarrow> int" where
  "indexOfFrom c [] i = - 1"
| "indexOfFrom c (d # ds) i = (if d = c then i else indexOfFrom c ds (i + 1))"

definition indexOf :: "string \<Rightarrow> char \<Rightarrow> int" where
  "indexOf s c = indexOfFrom c s 0"

definition substring :: "string \<Rightarrow> int \<Rightarrow> int \<Rightarrow> string" where
  "substring s a b =
     (let n = int (length s);
          a' = max 0 (min a n);
          b' = max 0 (min b n);
          lo = min a' b';
          hi = max a' b'
      in take (nat (hi - lo)) (drop (nat lo) s))"

text \<open>The constant \<open>dyeColor\<close> of \<open>renderBanner\<close>, as a function of the block name.\<close>

definition bannerDyeColor :: "string \<Rightarrow> nat option" where
  "bannerDyeColor name = dyeColorMapping (substring name 0 (indexOf name (CHR ''_'')))"

section \<open>Properties of the name tests\<close>

lemma matchHere_suffix: "matchHere lit s \<Longrightarrow> suffix lit s"
  by (induction s) (auto simp: suffix_Cons)

lemma matchHere_self: "matchHere lit lit"
  by (cases lit) auto

lemma regExpTest_suffix: "regExpTest lit s = suffix lit s"
proof (induction s)
  case Nil
  show ?case by auto
next
  case (Cons c cs)
  show ?case
  proof
    assume "regExpTest lit (c # cs)"
    then have "matchHere lit (c # cs) \<or> suffix lit cs"
      using Cons.IH by simp
    then show "suffix lit (c # cs)"
      using matchHere_suffix [of lit "c # cs"] by (auto simp: suffix_Cons)
  next
    assume "suffix lit (c # cs)"
    then have "lit = c # cs \<or> suffix lit cs"
      by (auto simp: suffix_Cons)
    then show "regExpTest lit (c # cs)"
      using Cons.IH by auto
  qed
qed

lemma halfTransparent_iff:
  "checkNameInSet name halfTransparentBlocks =
     (name = ''frosted_ice'' \<or> name = ''ice'' \<or> name = ''honey_block'' \<or>
      name = ''slime_block'' \<or> suffix ''copper_grate'' name \<or> name = ''glass'' \<or>
      suffix ''stained_glass'' name \<or> name = ''tinted_glass'')"
  by (simp add: checkNameInSet_def halfTransparentBlocks_def regExpTest_suffix eq_commute)

lemma iron_bars_not_half: "\<not> checkNameInSet ''iron_bars'' halfTransparentBlocks"
  by (simp add: checkNameInSet_def halfTransparentBlocks_def isLineTerminator_def)

lemma oak_leaves_not_half: "\<not> checkNameInSet ''oak_leaves'' halfTransparentBlocks"
  by (simp add: checkNameInSet_def halfTransparentBlocks_def isLineTerminator_def)

section \<open>Face culling\<close>

lemma skip_same_half:
  assumes "blockName a = blockName b"
    and "checkNameInSet (blockName a) halfTransparentBlocks"
  shows "hardCodedSkipRendering a b d"
  using assms by (simp add: hardCodedSkipRendering_def)

lemma skip_different:
  assumes "blockName a \<noteq> blockName b"
  shows "\<not> hardCodedSkipRendering a b d"
  using assms by (auto simp add: hardCodedSkipRendering_def)

text \<open>
  Claim C1, as the code has it. Two blocks of one name are culled against each other, in
  every direction, when the name is \<open>frosted_ice\<close>, \<open>ice\<close>, \<open>honey_block\<close>,
  \<open>slime_block\<close>, \<open>glass\<close> or \<open>tinted_glass\<close>, or ends in \<open>copper_grate\<close> or
  \<open>stained_glass\<close>; two blocks of different names are never culled. Names ending in
  \<open>_leaves\<close> are not part of the set the function consults.
\<close>

theorem skipRendering_half_transparent:
  "(blockName a = blockName b \<and>
     (blockName a = ''frosted_ice'' \<or> blockName a = ''ice'' \<or>
      blockName a = ''honey_block'' \<or> blockName a = ''slime_block'' \<or>
      blockName a = ''glass'' \<or> blockName a = ''tinted_glass'' \<or>
      suffix ''copper_grate'' (blockName a) \<or> suffix ''stained_glass'' (blockName a))
     \<longrightarrow> hardCodedSkipRendering a b d) \<and>
   (blockName a \<noteq> blockName b \<longrightarrow> \<not> hardCodedSkipRendering a b d)"
proof (intro conjI impI)
  assume h: "blockName a = blockName b \<and>
     (blockName a = ''frosted_ice'' \<or> blockName a = ''ice'' \<or>
      blockName a = ''honey_block'' \<or> blockName a = ''slime_block'' \<or>
      blockName a = ''glass'' \<or> blockName a = ''tinted_glass'' \<or>
      suffix ''copper_grate'' (blockName a) \<or> suffix ''stained_glass'' (blockName a))"
  then have "checkNameInSet (blockName a) halfTransparentBlocks"
    unfolding halfTransparent_iff by blast
  with h show "hardCodedSkipRendering a b d"
    using skip_same_half by blast
next
  assume "blockName a \<noteq> blockName b"
  then show "\<not> hardCodedSkipRendering a b d"
    by (rule skip_different)
qed

text \<open>
  The theorem at \<open>glass\<close> against \<open>glass\<close>, at \<open>red_stained_glass\<close> against itself
  and at \<open>glass\<close> against \<open>tinted_glass\<close>.
\<close>

theorem skipRendering_half_transparent_witness:
  "hardCodedSkipRendering \<lparr>blockName = ''glass'', blockProperties = Map.empty\<rparr>
      \<lparr>blockName = ''glass'', blockProperties = Map.empty\<rparr> UP \<and>
   hardCodedSkipRendering \<lparr>blockName = ''red_stained_glass'', blockProperties = Map.empty\<rparr>
      \<lparr>blockName = ''red_stained_glass'', blockProperties = Map.empty\<rparr> EAST \<and>
   \<not> hardCodedSkipRendering \<lparr>blockName = ''glass'', blockProperties = Map.empty\<rparr>
      \<lparr>blockName = ''tinted_glass'', blockProperties = Map.empty\<rparr> UP"
proof -
  have s: "suffix ''stained_glass'' ''red_stained_glass''"
    by (simp add: suffix_def)
  show ?thesis
    using skipRendering_half_transparent
            [of "\<lparr>blockName = ''glass'', blockProperties = Map.empty\<rparr>"
                "\<lparr>blockName = ''glass'', blockProperties = Map.empty\<rparr>" UP]
          skipRendering_half_transparent
            [of "\<lparr>blockName = ''red_stained_glass'', blockProperties = Map.empty\<rparr>"
                "\<lparr>blockName = ''red_stained_glass'', blockProperties = Map.empty\<rparr>" EAST]
          skipRendering_half_transparent
            [of "\<lparr>blockName = ''glass'', blockProperties = Map.empty\<rparr>"
                "\<lparr>blockName = ''tinted_glass'', blockProperties = Map.empty\<rparr>" UP] s
    by simp
qed

text \<open>
  Against claim C1 as stated: \<open>oak_leaves\<close> matches the leaves pattern, and two
  \<open>oak_leaves\<close> blocks are not culled against each other.
\<close>

theorem skipRendering_leaves_counterexample:
  "nameTestMatches ''oak_leaves'' leavesBlocks \<and>
   \<not> hardCodedSkipRendering \<lparr>blockName = ''oak_leaves'', blockProperties = Map.empty\<rparr>
      \<lparr>blockName = ''oak_leaves'', blockProperties = Map.empty\<rparr> NORTH"
  by (simp add: hardCodedSkipRendering_def oak_leaves_not_half leavesBlocks_def)

text \<open>
  Claim C2. Two \<open>iron_bars\<close> blocks are culled against each other exactly when the
  direction is horizontal, this block's property named after the direction is
  \<open>"true"\<close> and the other block's property named after the opposite direction is
  \<open>"true"\<close>.
\<close>

theorem skipRendering_iron_bars:
  "blockName a = ''iron_bars'' \<Longrightarrow> blockName b = ''iron_bars'' \<Longrightarrow>
   hardCodedSkipRendering a b d =
     (isHorizontalDirection d \<and>
      blockProperties a (directionName d) = Some ''true'' \<and>
      blockProperties b (directionName (oppositeDirection d)) = Some ''true'')"
  by (simp add: hardCodedSkipRendering_def iron_bars_not_half)

text \<open>
  The theorem at the spec's example: \<open>north\<close> against \<open>south\<close> going \<open>NORTH\<close> is
  culled; with either flag \<open>"false"\<close>, or going \<open>UP\<close>, it is not.
\<close>

theorem skipRendering_iron_bars_witness:
  "hardCodedSkipRendering
      \<lparr>blockName = ''iron_bars'', blockProperties = [''north'' \<mapsto> ''true'']\<rparr>
      \<lparr>blockName = ''iron_bars'', blockProperties = [''south'' \<mapsto> ''true'']\<rparr> NORTH \<and>
   \<not> hardCodedSkipRendering
      \<lparr>blockName = ''iron_bars'', blockProperties = [''north'' \<mapsto> ''false'']\<rparr>
      \<lparr>blockName = ''iron_bars'', blockProperties = [''south'' \<mapsto> ''true'']\<rparr> NORTH \<and>
   \<not> hardCodedSkipRendering
      \<lparr>blockName = ''iron_bars'', blockProperties = [''north'' \<mapsto> ''true'']\<rparr>
      \<lparr>blockName = ''iron_bars'', blockProperties = [''south'' \<mapsto> ''false'']\<rparr> NORTH \<and>
   \<not> hardCodedSkipRendering
      \<lparr>blockName = ''iron_bars'', blockProperties = [''up'' \<mapsto> ''true'']\<rparr>
      \<lparr>blockName = ''iron_bars'', blockProperties = [''down'' \<mapsto> ''true'']\<rparr> UP"
  using skipRendering_iron_bars
          [of "\<lparr>blockName = ''iron_bars'', blockProperties = [''north'' \<mapsto> ''true'']\<rparr>"
              "\<lparr>blockName = ''iron_bars'', blockProperties = [''south'' \<mapsto> ''true'']\<rparr>" NORTH]
        skipRendering_iron_bars
          [of "\<lparr>blockName = ''iron_bars'', blockProperties = [''north'' \<mapsto> ''false'']\<rparr>"
              "\<lparr>blockName = ''iron_bars'', blockProperties = [''south'' \<mapsto> ''true'']\<rparr>" NORTH]
        skipRendering_iron_bars
          [of "\<lparr>blockName = ''iron_bars'', blockProperties = [''north'' \<mapsto> ''true'']\<rparr>"
              "\<lparr>blockName = ''iron_bars'', blockProperties = [''south'' \<mapsto> ''false'']\<rparr>" NORTH]
        skipRendering_iron_bars
          [of "\<lparr>blockName = ''iron_bars'', blockProperties = [''up'' \<mapsto> ''true'']\<rparr>"
              "\<lparr>blockName = ''iron_bars'', blockProperties = [''down'' \<mapsto> ''true'']\<rparr>" UP]
  by simp

section \<open>Shading\<close>

text \<open>
  Claim C3. Without shading the multiplier is 1 in every direction; with shading it is
  0.5 for \<open>DOWN\<close>, 1 for \<open>UP\<close>, 0.8 for \<open>NORTH\<close> and \<open>SOUTH\<close>, 0.6 for \<open>EAST\<close>
  and \<open>WEST\<close>; it always lies in the interval from 0 (excluded) to 1 (included).
\<close>

theorem getShade_values:
  "getShade d False = 1 \<and>
   getShade DOWN True = 0.5 \<and> getShade UP True = 1 \<and>
   getShade NORTH True = 0.8 \<and> getShade SOUTH True = 0.8 \<and>
   getShade EAST True = 0.6 \<and> getShade WEST True = 0.6 \<and>
   0 < getShade d s \<and> getShade d s \<le> 1"
  by (cases d; cases s) (simp_all add: getShade_def constantAmbientLight_def)

theorem getShade_values_witness:
  "getShade WEST False = 1 \<and> 0 < getShade WEST True \<and> getShade WEST True \<le> 1"
  using getShade_values [of WEST True] getShade_values [of WEST False] by simp

section \<open>The cuboid builder\<close>

lemma boxModel_elements:
  "bakedElements (boxModel texture (fromX, fromY, fromZ) (width, height, depth) texOff
       (poseOffX, poseOffY, poseOffZ) rotation visibleFaces mirror shade) =
     [\<lparr>element_from = [fromX + poseOffX, fromY + poseOffY, fromZ + poseOffZ],
       element_to = [fromX + width + poseOffX, fromY + height + poseOffY,
                     fromZ + depth + poseOffZ],
       element_shade = shade,
       element_faces =
         directionFaces texture (width, height, depth) texOff visibleFaces mirror\<rparr>]"
  by (simp add: boxModel_def bakeModel_def)

lemma boxModel_one_element:
  "length (bakedElements
     (boxModel texture fromPos dims texOff poseOff rotation visibleFaces mirror shade)) = 1"
  by (cases fromPos; cases dims; cases poseOff) (simp add: boxModel_elements)

lemma boxModel7_one_element:
  "length (bakedElements (boxModel7 texture fromPos dims texOff poseOff rotation)) = 1"
  by (simp add: boxModel7_def boxModel_one_element)

lemma boxModel5_one_element:
  "length (bakedElements (boxModel5 texture fromPos dims texOff)) = 1"
  by (simp add: boxModel5_def boxModel_one_element)

lemma directionFaces_visible:
  "directionFaces texture dims texOff visibleFaces mirror d = Some f \<Longrightarrow>
     d \<in> set visibleFaces"
  by (cases dims; cases texOff; cases d; cases mirror)
     (simp_all add: directionFaces_def Let_def split: if_splits)

lemma directionFaces_mirror_west_east:
  "directionFaces texture dims texOff visibleFaces True WEST =
     directionFaces texture dims texOff visibleFaces False WEST \<and>
   directionFaces texture dims texOff visibleFaces True EAST =
     directionFaces texture dims texOff visibleFaces False EAST"
  by (cases dims; cases texOff) (simp add: directionFaces_def Let_def)

text \<open>
  Claim C4, at an input where the code departs from it: the mirrored scale of the dragon
  head (\<open>modelScale\<close> of \<open>renderDragonHead\<close>: size \<open>[2, 4, 6]\<close>, texture offset
  \<open>[0, 0]\<close>, all six faces visible), against the same call with \<open>mirror = false\<close>.
  The rectangles of \<open>WEST\<close> and \<open>EAST\<close> are the same in both modes, so they are
  neither flipped nor distinct, while the sibling faces are flipped: \<open>NORTH\<close> and
  \<open>DOWN\<close> have \<open>u0\<close> and \<open>u1\<close> exchanged.
\<close>

theorem boxModel_mirror_west_east:
  "map (\<lambda>e. map (\<lambda>d. map_option face_uv (element_faces e d)) [WEST, EAST, NORTH, DOWN])
     (bakedElements
        (boxModel (Some 0) (- 5, - 12, - 4) (2, 4, 6) (0, 0) (0, 0, 0) IDENTITY_ROTATION
           [NORTH, SOUTH, WEST, EAST, UP, DOWN] True True)) =
     [[Some [6, 10, 0, 6], Some [14, 10, 8, 6], Some [6, 10, 8, 6], Some [8, 0, 6, 6]]] \<and>
   map (\<lambda>e. map (\<lambda>d. map_option face_uv (element_faces e d)) [WEST, EAST, NORTH, DOWN])
     (bakedElements
        (boxModel (Some 0) (- 5, - 12, - 4) (2, 4, 6) (0, 0) (0, 0, 0) IDENTITY_ROTATION
           [NORTH, SOUTH, WEST, EAST, UP, DOWN] False True)) =
     [[Some [6, 10, 0, 6], Some [14, 10, 8, 6], Some [8, 10, 6, 6], Some [6, 0, 8, 6]]]"
  by (simp add: boxModel_elements directionFaces_def Let_def)

text \<open>
  Claim C5. The model returned by \<open>boxModel\<close> consists of exactly one cuboid element,
  and every key of that element's face map is a member of \<open>visibleFaces\<close>.
\<close>

theorem boxModel_faces_visible:
  "\<exists>e. bakedElements
          (boxModel texture fromPos dims texOff poseOff rotation visibleFaces mirror shade)
          = [e] \<and>
        dom (element_faces e) \<subseteq> set visibleFaces"
proof -
  have "dom (directionFaces texture dims texOff visibleFaces mirror) \<subseteq> set visibleFaces"
    using directionFaces_visible by fastforce
  then show ?thesis
    by (cases fromPos; cases dims; cases poseOff) (simp add: boxModel_elements)
qed

text \<open>
  The theorem at the side panel of the decorated pot, whose only visible face is
  \<open>NORTH\<close>.
\<close>

theorem boxModel_faces_visible_witness:
  "\<exists>e. bakedElements
          (boxModel (Some 1) (0, 0, 0) (14, 16, 0) (1, 0) (0, 0, 0) IDENTITY_ROTATION
             [NORTH] False True) = [e] \<and>
        dom (element_faces e) \<subseteq> {NORTH}"
  using boxModel_faces_visible
          [of "Some 1" "(0, 0, 0)" "(14, 16, 0)" "(1, 0)" "(0, 0, 0)" IDENTITY_ROTATION
              "[NORTH]" False True]
  by simp

section \<open>The chest and the lectern\<close>

lemma scene_render:
  "scene (renderModelNoCullsWithMS model blk material st transform flag) =
     scene st @ [\<lparr>call_model = model, call_block = blk, call_material = material,
          call_transform = transform, call_flag = flag\<rparr>]"
  by (simp add: renderModelNoCullsWithMS_def)

lemma console_render:
  "console (renderModelNoCullsWithMS model blk material st transform flag) = console st"
  by (simp add: renderModelNoCullsWithMS_def)

lemma chestModels_single:
  assumes "blockProperties blockState ''type'' = Some ''single''"
  shows "chestModels blockState modelManager =
     Some (boxModel7 (arrayGet (modelManager (blockName blockState)) 0)
             (1, 0, 1) (14, 10, 14) (0, 19) (0, 0, 0)
             (fromFacingToRotation (blockProperties blockState ''facing'')),
           boxModel7 (arrayGet (modelManager (blockName blockState)) 0)
             (1, 0, 0) (14, 5, 14) (0, 0) (0, 9, 1)
             (fromFacingToRotation (blockProperties blockState ''facing'')),
           boxModel7 (arrayGet (modelManager (blockName blockState)) 0)
             (7, - 2, 14) (2, 4, 1) (0, 0) (0, 9, 1)
             (fromFacingToRotation (blockProperties blockState ''facing'')))"
  using assms by (simp add: chestModels_def Let_def)

lemma chestModels_unknown:
  assumes "blockProperties blockState ''type'' \<noteq> Some ''single''"
    and "blockProperties blockState ''type'' \<noteq> Some ''left''"
    and "blockProperties blockState ''type'' \<noteq> Some ''right''"
  shows "chestModels blockState modelManager = None"
  using assms by (simp add: chestModels_def Let_def)

lemma renderChest_Some:
  assumes "chestModels blockState modelManager = Some (b, l, k)"
  shows "scene (renderChest st x y z blockState modelManager) =
           scene st @
             [\<lparr>call_model = b, call_block = blockState, call_material = Cutout,
               call_transform = Translation x y z, call_flag = None\<rparr>,
              \<lparr>call_model = l, call_block = blockState, call_material = Cutout,
               call_transform = Translation x y z, call_flag = None\<rparr>,
              \<lparr>call_model = k, call_block = blockState, call_material = Cutout,
               call_transform = Translation x y z, call_flag = None\<rparr>]"
    and "console (renderChest st x y z blockState modelManager) = console st"
  using assms by (simp_all add: renderChest_def Let_def scene_render console_render)

lemma renderChest_None:
  assumes "chestModels blockState modelManager = None"
  shows "renderChest st x y z blockState modelManager =
           st\<lparr>console := console st @
                 [(''Unknown chest type'', blockProperties blockState ''type'')]\<rparr>"
  using assms by (simp add: renderChest_def consoleWarn_def)

lemma renderBook_scene:
  "\<exists>calls.
     scene (renderBook st transform blk texture params) = scene st @ calls \<and>
     map (\<lambda>c. length (bakedElements (call_model c))) calls = [1, 1, 1, 1, 1, 1, 1]"
  by (cases params)
     (simp add: renderBook_def Let_def scene_render boxModel5_one_element)

lemma renderBook_console:
  "console (renderBook st transform blk texture params) = console st"
  by (cases params) (simp add: renderBook_def Let_def console_render)

text \<open>
  Claim C7. With \<open>type = "single"\<close> the chest renderer hands exactly three models to
  the scene, the bottom, the lid and the lock in this order, each of one cuboid, and
  writes no warning. With a \<open>type\<close> that is none of \<open>single\<close>, \<open>left\<close> and
  \<open>right\<close> (a missing one included) it hands nothing to the scene and writes exactly
  one warning. The renderer has no \<open>throw\<close> and reads only properties and array
  elements, so it always returns: it is a total function on the render state.
\<close>

theorem renderChest_single_and_unknown:
  "(blockProperties blockState ''type'' = Some ''single'' \<longrightarrow>
      (\<exists>calls.
         scene (renderChest st x y z blockState modelManager) = scene st @ calls \<and>
         map call_model calls =
           [boxModel7 (arrayGet (modelManager (blockName blockState)) 0)
              (1, 0, 1) (14, 10, 14) (0, 19) (0, 0, 0)
              (fromFacingToRotation (blockProperties blockState ''facing'')),
            boxModel7 (arrayGet (modelManager (blockName blockState)) 0)
              (1, 0, 0) (14, 5, 14) (0, 0) (0, 9, 1)
              (fromFacingToRotation (blockProperties blockState ''facing'')),
            boxModel7 (arrayGet (modelManager (blockName blockState)) 0)
              (7, - 2, 14) (2, 4, 1) (0, 0) (0, 9, 1)
              (fromFacingToRotation (blockProperties blockState ''facing''))] \<and>
         map (\<lambda>c. length (bakedElements (call_model c))) calls = [1, 1, 1]) \<and>
      console (renderChest st x y z blockState modelManager) = console st) \<and>
   (blockProperties blockState ''type'' \<notin> {Some ''single'', Some ''left'', Some ''right''} \<longrightarrow>
      scene (renderChest st x y z blockState modelManager) = scene st \<and>
      console (renderChest st x y z blockState modelManager) =
        console st @ [(''Unknown chest type'', blockProperties blockState ''type'')])"
proof (intro conjI impI)
  assume t: "blockProperties blockState ''type'' = Some ''single''"
  note m = chestModels_single [OF t, of modelManager]
  show "\<exists>calls.
         scene (renderChest st x y z blockState modelManager) = scene st @ calls \<and>
         map call_model calls =
           [boxModel7 (arrayGet (modelManager (blockName blockState)) 0)
              (1, 0, 1) (14, 10, 14) (0, 19) (0, 0, 0)
              (fromFacingToRotation (blockProperties blockState ''facing'')),
            boxModel7 (arrayGet (modelManager (blockName blockState)) 0)
              (1, 0, 0) (14, 5, 14) (0, 0) (0, 9, 1)
              (fromFacingToRotation (blockProperties blockState ''facing'')),
            boxModel7 (arrayGet (modelManager (blockName blockState)) 0)
              (7, - 2, 14) (2, 4, 1) (0, 0) (0, 9, 1)
              (fromFacingToRotation (blockProperties blockState ''facing''))] \<and>
         map (\<lambda>c. length (bakedElements (call_model c))) calls = [1, 1, 1]"
    by (simp add: renderChest_Some(1) [OF m] boxModel7_one_element)
  show "console (renderChest st x y z blockState modelManager) = console st"
    by (rule renderChest_Some(2) [OF m])
next
  assume "blockProperties blockState ''type'' \<notin> {Some ''single'', Some ''left'', Some ''right''}"
  then have n: "chestModels blockState modelManager = None"
    by (simp add: chestModels_unknown)
  show "scene (renderChest st x y z blockState modelManager) = scene st"
    by (simp add: renderChest_None [OF n])
  show "console (renderChest st x y z blockState modelManager) =
        console st @ [(''Unknown chest type'', blockProperties blockState ''type'')]"
    by (simp add: renderChest_None [OF n])
qed

text \<open>
  The theorem on an empty scene, for a chest of \<open>type = "single"\<close> and for one of
  \<open>type = "middle"\<close>.
\<close>

theorem renderChest_single_and_unknown_witness:
  "length (scene (renderChest \<lparr>scene = [], console = []\<rparr> 0 0 0
      \<lparr>blockName = ''chest'', blockProperties = [''type'' \<mapsto> ''single'']\<rparr>
      (\<lambda>name. [0, 1, 2]))) = 3 \<and>
   scene (renderChest \<lparr>scene = [], console = []\<rparr> 0 0 0
      \<lparr>blockName = ''chest'', blockProperties = [''type'' \<mapsto> ''middle'']\<rparr>
      (\<lambda>name. [0, 1, 2])) = [] \<and>
   console (renderChest \<lparr>scene = [], console = []\<rparr> 0 0 0
      \<lparr>blockName = ''chest'', blockProperties = [''type'' \<mapsto> ''middle'']\<rparr>
      (\<lambda>name. [0, 1, 2])) = [(''Unknown chest type'', Some ''middle'')]"
proof -
  obtain calls where
    c: "scene (renderChest \<lparr>scene = [], console = []\<rparr> 0 0 0
          \<lparr>blockName = ''chest'', blockProperties = [''type'' \<mapsto> ''single'']\<rparr>
          (\<lambda>name. [0, 1, 2])) = [] @ calls"
    and l: "map (\<lambda>c. length (bakedElements (call_model c))) calls = [1, 1, 1]"
    using renderChest_single_and_unknown
            [of "\<lparr>blockName = ''chest'', blockProperties = [''type'' \<mapsto> ''single'']\<rparr>"
                "\<lparr>scene = [], console = []\<rparr>" 0 0 0 "\<lambda>name. [0, 1, 2]"]
    by auto
  from l have "length calls = 3"
    using length_map [of "\<lambda>c. length (bakedElements (call_model c))" calls] by simp
  with c show ?thesis
    using renderChest_single_and_unknown
            [of "\<lparr>blockName = ''chest'', blockProperties = [''type'' \<mapsto> ''middle'']\<rparr>"
                "\<lparr>scene = [], console = []\<rparr>" 0 0 0 "\<lambda>name. [0, 1, 2]"]
    by simp
qed

text \<open>
  Claim C10. The lectern renderer leaves scene and console as they are when
  \<open>has_book\<close> is the string \<open>"false"\<close>. For every other value, and when the
  property is absent, it hands the seven models of the book to the scene, each of one
  cuboid, and writes no warning.
\<close>

theorem renderLecternBlock_has_book:
  "(blockProperties blockState ''has_book'' = Some ''false'' \<longrightarrow>
      renderLecternBlock st x y z blockState modelManager = st) \<and>
   (blockProperties blockState ''has_book'' \<noteq> Some ''false'' \<longrightarrow>
      (\<exists>calls.
         scene (renderLecternBlock st x y z blockState modelManager) = scene st @ calls \<and>
         map (\<lambda>c. length (bakedElements (call_model c))) calls = [1, 1, 1, 1, 1, 1, 1]) \<and>
      console (renderLecternBlock st x y z blockState modelManager) = console st)"
  using renderBook_scene renderBook_console
  by (simp add: renderLecternBlock_def Let_def)

text \<open>
  The theorem on an empty scene, for \<open>has_book = "false"\<close>, for a lectern without
  the property and for \<open>has_book = "true"\<close>.
\<close>

theorem renderLecternBlock_has_book_witness:
  "renderLecternBlock \<lparr>scene = [], console = []\<rparr> 0 0 0
      \<lparr>blockName = ''lectern'', blockProperties = [''has_book'' \<mapsto> ''false'']\<rparr>
      (\<lambda>name. [0]) = \<lparr>scene = [], console = []\<rparr> \<and>
   length (scene (renderLecternBlock \<lparr>scene = [], console = []\<rparr> 0 0 0
      \<lparr>blockName = ''lectern'', blockProperties = Map.empty\<rparr> (\<lambda>name. [0]))) = 7 \<and>
   length (scene (renderLecternBlock \<lparr>scene = [], console = []\<rparr> 0 0 0
      \<lparr>blockName = ''lectern'', blockProperties = [''has_book'' \<mapsto> ''true'']\<rparr>
      (\<lambda>name. [0]))) = 7"
proof -
  have len: "length calls = 7"
    if "map (\<lambda>c. length (bakedElements (call_model c))) calls = [1, 1, 1, 1, 1, 1, 1]"
    for calls :: "RenderCall list"
    using that length_map [of "\<lambda>c. length (bakedElements (call_model c))" calls] by simp
  show ?thesis
    using renderLecternBlock_has_book
            [of "\<lparr>blockName = ''lectern'', blockProperties = [''has_book'' \<mapsto> ''false'']\<rparr>"
                "\<lparr>scene = [], console = []\<rparr>" 0 0 0 "\<lambda>name. [0]"]
          renderLecternBlock_has_book
            [of "\<lparr>blockName = ''lectern'', blockProperties = Map.empty\<rparr>"
                "\<lparr>scene = [], console = []\<rparr>" 0 0 0 "\<lambda>name. [0]"]
          renderLecternBlock_has_book
            [of "\<lparr>blockName = ''lectern'', blockProperties = [''has_book'' \<mapsto> ''true'']\<rparr>"
                "\<lparr>scene = [], console = []\<rparr>" 0 0 0 "\<lambda>name. [0]"]
    by (auto dest: len)
qed

section \<open>The registry\<close>

lemma piston_head_entry:
  "findHardCodedRenderer ''piston_head'' =
     Some \<lparr>block = Str ''piston_head'', renderFunc = NoOpFn, needRenderModel = Some True\<rparr>"
  by (simp add: findHardCodedRenderer_def hardCodedRenderers_def isLineTerminator_def)

lemma piston_head_matches_head: "nameTestMatches ''piston_head'' (RegExp ''_head'')"
  by (simp add: isLineTerminator_def)

text \<open>
  Claim C6, as the code has it. Matching \<open>piston_head\<close> in list order selects the
  entry keyed \<open>piston_head\<close>; the skull entry keyed \<open>/.*_head$/\<close>, which matches
  the name too, stands later in the list. The selected entry's render function leaves the
  scene and the console as they are, and the entry sets \<open>needRenderModel\<close>: the
  generic model of the block is rendered.
\<close>

theorem piston_head_registry:
  "\<exists>before entry rest.
     hardCodedRenderers = before @ entry # rest \<and>
     findHardCodedRenderer ''piston_head'' = Some entry \<and>
     block entry = Str ''piston_head'' \<and>
     \<lparr>block = RegExp ''_head'', renderFunc = RenderSkullFn, needRenderModel = None\<rparr>
       \<in> set rest \<and>
     nameTestMatches ''piston_head'' (RegExp ''_head'') \<and>
     callRenderFunc others (renderFunc entry) st x y z blockState modelManager = st \<and>
     rendersGenericModel entry"
  apply (rule exI [of _ "take 12 hardCodedRenderers"])
  apply (rule exI [of _ "\<lparr>block = Str ''piston_head'', renderFunc = NoOpFn,
                           needRenderModel = Some True\<rparr>"])
  apply (rule exI [of _ "drop 13 hardCodedRenderers"])
  apply (simp add: piston_head_entry rendersGenericModel_def piston_head_matches_head)
  apply (simp add: hardCodedRenderers_def)
  done

text \<open>
  Against claim C6 as stated: the entry selected for \<open>piston_head\<close> asks for the
  generic model to be rendered; it does not suppress it.
\<close>

theorem piston_head_counterexample:
  "map_option rendersGenericModel (findHardCodedRenderer ''piston_head'') = Some True"
  by (simp add: piston_head_entry rendersGenericModel_def)

section \<open>The banner\<close>

lemma key_light_blue:
  "substring ''light_blue_banner'' 0 (indexOf ''light_blue_banner'' (CHR ''_'')) = ''light''"
  by (simp add: substring_def indexOf_def)

lemma key_light_gray_wall:
  "substring ''light_gray_wall_banner'' 0 (indexOf ''light_gray_wall_banner'' (CHR ''_''))
     = ''light''"
  by (simp add: substring_def indexOf_def)

lemma key_red:
  "substring ''red_wall_banner'' 0 (indexOf ''red_wall_banner'' (CHR ''_'')) = ''red''"
  by (simp add: substring_def indexOf_def)

lemma indexOfFrom_append:
  "CHR ''_'' \<notin> set c \<Longrightarrow> indexOfFrom (CHR ''_'') (c @ CHR ''_'' # r) i = i + int (length c)"
  by (induction c arbitrary: i) auto

lemma bannerDyeColor_prefix:
  assumes "CHR ''_'' \<notin> set c"
  shows "bannerDyeColor (c @ CHR ''_'' # r) = dyeColorMapping c"
  using assms
  by (simp add: bannerDyeColor_def substring_def indexOf_def indexOfFrom_append Let_def)

lemma bannerDyeColor_one_word:
  assumes "c \<in> set [''white'', ''orange'', ''magenta'', ''yellow'', ''lime'', ''pink'',
                      ''gray'', ''cyan'', ''purple'', ''blue'', ''brown'', ''green'',
                      ''red'', ''black'']"
  shows "bannerDyeColor (c @ ''_banner'') = dyeColorMapping c \<and>
         bannerDyeColor (c @ ''_wall_banner'') = dyeColorMapping c \<and>
         dyeColorMapping c \<noteq> None"
proof -
  from assms have u: "CHR ''_'' \<notin> set c"
    by auto
  from assms have d: "dyeColorMapping c \<noteq> None"
    by (auto simp: dyeColorMapping_def)
  show ?thesis
    using bannerDyeColor_prefix [OF u, of "''banner''"]
          bannerDyeColor_prefix [OF u, of "''wall_banner''"] d
    by simp
qed

text \<open>
  Claim C8, at the inputs where the code departs from it. For \<open>light_blue_banner\<close>
  and \<open>light_gray_wall_banner\<close> the key cut off before the first underscore is
  \<open>light\<close>, which the table does not hold, so the flag colour is undefined, although
  the table has the entries \<open>light_blue\<close> and \<open>light_gray\<close>. A one-word colour such
  as \<open>red\<close> is found.
\<close>

theorem bannerDyeColor_light_blue:
  "bannerDyeColor ''light_blue_banner'' = None \<and>
   bannerDyeColor ''light_gray_wall_banner'' = None \<and>
   dyeColorMapping ''light_blue'' = Some 0x3ab3da \<and>
   dyeColorMapping ''light_gray'' = Some 0x9d9d97 \<and>
   bannerDyeColor ''red_wall_banner'' = Some 0xb02e26"
  by (simp add: bannerDyeColor_def key_light_blue key_light_gray_wall key_red
        dyeColorMapping_def)

end
